theory Spec2Isabelle
  imports Main
begin

section \<open>The cohort table\<close>

text \<open>
  The notebook \<^verbatim>\<open>appendix/sepsis-3-angus-on-time.ipynb\<close> loads one data frame,
  \<^verbatim>\<open>df = su.get_data(exclusions=excl)\<close>, and derives every vector it evaluates from the
  columns of that frame. A row of the frame carries the four severity scores, the Angus
  flag (compared with 1 by the notebook) and the precomputed \<^verbatim>\<open>sepsis3\<close> flag (used as a
  prediction vector as it is). The frame is the list of its rows, in row order, and
  \<^verbatim>\<open>df.c.values\<close> is the list of the values of column \<open>c\<close>, that is \<open>map c df\<close>.
\<close>

record cohort_record =
  sirs :: int
  sofa :: int
  lods :: int
  qsofa :: int
  angus :: int
  sepsis3 :: bool

type_synonym data_frame = "cohort_record list"

text \<open>
  The failures of the operations modelled below: numpy's refusal to combine two arrays
  whose shapes do not broadcast, and the size-mismatch failure of the metric reporter.
\<close>

datatype error = Broadcast_error | Size_mismatch

section \<open>Array operations of the notebook\<close>

text \<open>\<^verbatim>\<open>a >= k\<close> and \<^verbatim>\<open>a == k\<close> on an array and a scalar compare every element.\<close>

definition np_ge :: "int list \<Rightarrow> int \<Rightarrow> bool list" where
  "np_ge a k = map (\<lambda>v. k \<le> v) a"

definition np_eq :: "int list \<Rightarrow> int \<Rightarrow> bool list" where
  "np_eq a k = map (\<lambda>v. v = k) a"

text \<open>
  \<^verbatim>\<open>a & b\<close> on two one-dimensional boolean arrays is the elementwise conjunction when the
  lengths agree; an array of length one is broadcast along the other; any other pair of
  lengths raises.
\<close>

definition np_and :: "bool list \<Rightarrow> bool list \<Rightarrow> error + bool list" where
  "np_and a b =
     (if length a = length b then Inr (map2 (\<and>) a b)
      else if length a = 1 then Inr (map (\<lambda>q. hd a \<and> q) b)
      else if length b = 1 then Inr (map (\<lambda>p. p \<and> hd b) a)
      else Inl Broadcast_error)"

section \<open>Vectors derived from the cohort table\<close>

text \<open>\<^verbatim>\<open>y = df[target_header].values == 1\<close> with \<^verbatim>\<open>target_header = "angus"\<close>.\<close>

definition y :: "data_frame \<Rightarrow> bool list" where
  "y df = np_eq (map angus df) 1"

text \<open>\<^verbatim>\<open>yhat = (df.qsofa.values >= 2) & (df.sofa.values>=2)\<close>; the same expression is the
  score handed to the ROC computation for SEPSIS-3.\<close>

definition yhat :: "data_frame \<Rightarrow> error + bool list" where
  "yhat df = np_and (np_ge (map qsofa df) 2) (np_ge (map sofa df) 2)"

text \<open>The five rules reported together, their names, and the target repeated once per rule.\<close>

definition yhat_all :: "data_frame \<Rightarrow> bool list list" where
  "yhat_all df =
     [np_ge (map qsofa df) 2,
      np_ge (map sofa df) 2,
      map sepsis3 df,
      np_ge (map sirs df) 2,
      np_ge (map lods df) 2]"

definition yhat_names :: "string list" where
  "yhat_names = [''qsofa'', ''sofa'', ''seps3'', ''SIRS'', ''LODS'']"

definition y_all :: "data_frame \<Rightarrow> bool list list" where
  "y_all df = [y df, y df, y df, y df, y df]"

text \<open>The score arrays handed to the four ROC computations on a column, in source order
  (qSOFA, SOFA, SIRS, LODS).\<close>

definition roc_scores :: "data_frame \<Rightarrow> int list list" where
  "roc_scores df = [map qsofa df, map sofa df, map sirs df, map lods df]"

section \<open>The confusion matrix of the metric reporter\<close>

text \<open>The number of records whose truth value is \<open>t\<close> and whose prediction is \<open>p\<close>.\<close>

definition count_pairs :: "bool \<Rightarrow> bool \<Rightarrow> bool list \<Rightarrow> bool list \<Rightarrow> nat" where
  "count_pairs t p y_true y_pred =
     length (filter (\<lambda>(a, b). a = t \<and> b = p) (zip y_true y_pred))"

text \<open>
  Modelled from the spec: \<^verbatim>\<open>su.print_cm\<close>, of the module \<^verbatim>\<open>sepsis_utils\<close> that the notebook
  imports and that is not among the sources. The spec gives its contract as
  \<^verbatim>\<open>confusion_matrix(y_true, y_pred) -> (tp, fp, fn, tn)\<close> with
  tp = count(y_true=1 and y_pred=1) and so on, failing with a size-mismatch error when the
  vectors differ in length or are empty. The value returned here is the tuple it reports.
\<close>

definition print_cm :: "bool list \<Rightarrow> bool list \<Rightarrow> error + (nat \<times> nat \<times> nat \<times> nat)" where
  "print_cm y_true y_pred =
     (if length y_true = length y_pred then
        (if y_true = [] then Inl Size_mismatch
         else Inr (count_pairs True True y_true y_pred,
                   count_pairs False True y_true y_pred,
                   count_pairs True False y_true y_pred,
                   count_pairs False False y_true y_pred))
      else Inl Size_mismatch)"

section \<open>The rule evaluator\<close>

lemma np_ge_length: "length (np_ge a k) = length a"
  by (simp add: np_ge_def)

lemma np_and_same_length:
  "length a = length b \<Longrightarrow> np_and a b = Inr (map2 (\<and>) a b)"
  by (simp add: np_and_def)

lemma yhat_eq: "yhat df = Inr (map (\<lambda>r. 2 \<le> qsofa r \<and> 2 \<le> sofa r) df)"
proof -
  have "map2 (\<and>) (map (\<lambda>r. 2 \<le> qsofa r) df) (map (\<lambda>r. 2 \<le> sofa r) df)
          = map (\<lambda>r. 2 \<le> qsofa r \<and> 2 \<le> sofa r) df"
    by (induction df) simp_all
  then show ?thesis
    by (simp add: yhat_def np_and_def np_ge_def comp_def)
qed

text \<open>
  C1. The Sepsis-3 rule never fails on columns of one table, and its result has one entry
  per cohort record, in the order of the records: entry \<open>i\<close> is true exactly when record
  \<open>i\<close> has qSOFA at least 2 and SOFA at least 2. It is the elementwise conjunction of the
  two per-score rules reported as \<^verbatim>\<open>yhat_all[0]\<close> and \<^verbatim>\<open>yhat_all[1]\<close>.
\<close>

theorem yhat_sepsis3_rule:
  "\<exists>v. yhat df = Inr v \<and> length v = length df
       \<and> (\<forall>i<length df. v ! i = (2 \<le> qsofa (df ! i) \<and> 2 \<le> sofa (df ! i)))
       \<and> v = map2 (\<and>) (yhat_all df ! 0) (yhat_all df ! 1)"
proof -
  let ?v = "map (\<lambda>r. 2 \<le> qsofa r \<and> 2 \<le> sofa r) df"
  have "yhat df = Inr (map2 (\<and>) (yhat_all df ! 0) (yhat_all df ! 1))"
    by (simp add: yhat_def yhat_all_def np_and_same_length np_ge_length)
  then have both: "?v = map2 (\<and>) (yhat_all df ! 0) (yhat_all df ! 1)"
    by (simp add: yhat_eq)
  have entries: "\<forall>i<length df. ?v ! i = (2 \<le> qsofa (df ! i) \<and> 2 \<le> sofa (df ! i))"
    by simp
  have "length ?v = length df"
    by simp
  with yhat_eq [of df] entries both show ?thesis
    by blast
qed

theorem yhat_sepsis3_rule_witness:
  "yhat [\<lparr>sirs = 1, sofa = 4, lods = 3, qsofa = 2, angus = 1, sepsis3 = True\<rparr>,
         \<lparr>sirs = 2, sofa = 1, lods = 0, qsofa = 3, angus = 0, sepsis3 = False\<rparr>,
         \<lparr>sirs = 0, sofa = 5, lods = 2, qsofa = 1, angus = 1, sepsis3 = False\<rparr>]
     = Inr [True, False, False]"
proof -
  let ?df = "[\<lparr>sirs = 1, sofa = 4, lods = 3, qsofa = 2, angus = 1, sepsis3 = True\<rparr>,
              \<lparr>sirs = 2, sofa = 1, lods = 0, qsofa = 3, angus = 0, sepsis3 = False\<rparr>,
              \<lparr>sirs = 0, sofa = 5, lods = 2, qsofa = 1, angus = 1, sepsis3 = False\<rparr>]"
  from yhat_sepsis3_rule [of ?df] obtain v where
    v: "yhat ?df = Inr v" "length v = 3"
       "\<forall>i<3. v ! i = (2 \<le> qsofa (?df ! i) \<and> 2 \<le> sofa (?df ! i))"
    by auto
  have "v ! 0 = True" "v ! 1 = False" "v ! 2 = False"
    using v(3) by simp_all
  moreover have "v = [v ! 0, v ! 1, v ! 2]"
    using v(2) by (auto simp: list_eq_iff_nth_eq less_Suc_eq numeral_3_eq_3 numeral_2_eq_2)
  ultimately have "v = [True, False, False]"
    by simp
  with v(1) show ?thesis by simp
qed

section \<open>The confusion matrix\<close>

lemma count_pairs_partition:
  "length (filter (\<lambda>(a, b). a = True \<and> b = True) ps)
   + length (filter (\<lambda>(a, b). a = False \<and> b = True) ps)
   + length (filter (\<lambda>(a, b). a = True \<and> b = False) ps)
   + length (filter (\<lambda>(a, b). a = False \<and> b = False) ps) = length ps"
  by (induction ps) auto

lemma count_pairs_sum:
  "count_pairs True True y_true y_pred + count_pairs False True y_true y_pred
   + count_pairs True False y_true y_pred + count_pairs False False y_true y_pred
   = min (length y_true) (length y_pred)"
  unfolding count_pairs_def using count_pairs_partition [of "zip y_true y_pred"] by simp

lemma print_cm_example:
  "print_cm [True, True, False, False] [True, False, True, False] = Inr (1, 1, 1, 1)"
  by (simp add: print_cm_def count_pairs_def)

text \<open>
  C2. For a truth vector and a prediction vector of one length \<open>n\<close>, the four counts
  tp, fp, fn and tn add up to \<open>n\<close>, and for a non-empty pair they are the tuple the
  confusion matrix reports; for truth [1,1,0,0] and predictions [1,0,1,0] the tuple is
  (tp=1, fp=1, fn=1, tn=1).
\<close>

theorem print_cm_counts_sum:
  "(length y_true = length y_pred \<longrightarrow>
      count_pairs True True y_true y_pred + count_pairs False True y_true y_pred
      + count_pairs True False y_true y_pred + count_pairs False False y_true y_pred
      = length y_true
      \<and> (y_true \<noteq> [] \<longrightarrow>
           print_cm y_true y_pred =
             Inr (count_pairs True True y_true y_pred, count_pairs False True y_true y_pred,
                  count_pairs True False y_true y_pred, count_pairs False False y_true y_pred)))
   \<and> print_cm [True, True, False, False] [True, False, True, False] = Inr (1, 1, 1, 1)"
  using count_pairs_sum [of y_true y_pred] print_cm_example
  by (simp add: print_cm_def)

theorem print_cm_counts_sum_witness:
  "print_cm [True, False, True, True, False] [True, True, False, True, False] = Inr (2, 1, 1, 1)
   \<and> (2::nat) + 1 + 1 + 1 = length [True, False, True, True, False]"
  using print_cm_counts_sum [of "[True, False, True, True, False]" "[True, True, False, True, False]"]
  by (simp add: count_pairs_def)

section \<open>Lengths of the vectors the notebook evaluates\<close>

lemma y_length: "length (y df) = length df"
  by (simp add: y_def np_eq_def)

text \<open>
  C10. Every vector the notebook hands to a joint metric call has the length of the cohort
  table, whatever the table is: the outcome \<open>y\<close>; the prediction \<open>yhat\<close>, which is
  always computed (passed with \<open>y\<close> to \<^verbatim>\<open>metrics.accuracy_score\<close> and \<^verbatim>\<open>su.print_cm\<close>, and
  as the SEPSIS-3 score to \<^verbatim>\<open>metrics.roc_curve\<close>); the four score columns passed with \<open>y\<close>
  to \<^verbatim>\<open>metrics.roc_curve\<close>; and the five predictions and five targets passed, with five
  names, to \<^verbatim>\<open>su.print_op_stats\<close>. So no call receives two vectors of different lengths,
  and a failure that is raised only for vectors of different lengths cannot occur.
\<close>

theorem notebook_vectors_same_length:
  "length (y df) = length df
   \<and> (\<exists>v. yhat df = Inr v \<and> length v = length (y df))
   \<and> map length (roc_scores df) = replicate 4 (length (y df))
   \<and> map length (yhat_all df) = replicate 5 (length df)
   \<and> map length (y_all df) = replicate 5 (length df)
   \<and> length yhat_names = 5"
  using yhat_eq [of df]
  by (simp add: y_length roc_scores_def yhat_all_def y_all_def yhat_names_def np_ge_length
      numeral_eq_Suc)

end
